theory Spec2Isabelle
  imports Complex_Main "HOL-Library.Word"
begin

section \<open>JavaScript values at the boundary of the wrapper\<close>

text \<open>
  The TypeScript helper \<^verbatim>\<open>js/index.ts\<close> wraps the raw WebAssembly binding
  \<^verbatim>\<open>WasmFluxgate\<close>. Every argument crosses the boundary as JSON text and every result
  comes back as JSON text (or as bytes, for snapshots). A JavaScript number is modelled by an
  exact rational; \<^verbatim>\<open>NaN\<close> and the infinities are not modelled.
\<close>

datatype json =
    JNull
  | JBool bool
  | JNum rat
  | JStr string
  | JArr "json list"
  | JObj "(string \<times> json) list"

text \<open>
  A JSON text is modelled by the value it denotes, so that \<^verbatim>\<open>JSON.parse\<close> undoes
  \<^verbatim>\<open>JSON.stringify\<close>; a text that does not parse is \<open>Malformed\<close>.
\<close>

datatype json_text = Text json | Malformed string

datatype js_error =
    Error string          \<comment> \<open>\<^verbatim>\<open>new Error(message)\<close>\<close>
  | SyntaxError string    \<comment> \<open>thrown by \<^verbatim>\<open>JSON.parse\<close>\<close>
  | WasmError string      \<comment> \<open>an exception thrown by the binding\<close>

definition JSON_stringify :: "json \<Rightarrow> json_text" where
  "JSON_stringify v = Text v"

definition JSON_parse :: "json_text \<Rightarrow> js_error + json" where
  "JSON_parse t = (case t of Text v \<Rightarrow> Inr v | Malformed s \<Rightarrow> Inl (SyntaxError s))"

text \<open>Property access \<^verbatim>\<open>o[k]\<close>: \<open>None\<close> is JavaScript's \<^verbatim>\<open>undefined\<close>.\<close>

definition property :: "json \<Rightarrow> string \<Rightarrow> json option" where
  "property j k = (case j of JObj fs \<Rightarrow> map_of fs k | _ \<Rightarrow> None)"

type_synonym byte = "8 word"

text \<open>
  What \<^verbatim>\<open>instance.snapshot()\<close> may hand to the wrapper: a \<^verbatim>\<open>Uint8Array\<close>, or bytes in
  another container (a plain array of integers, an \<^verbatim>\<open>ArrayBuffer\<close>).
\<close>

datatype js_bytes =
    Uint8Array "byte list"
  | NumberArray "int list"
  | ArrayBuffer "byte list"

definition instanceof_Uint8Array :: "js_bytes \<Rightarrow> bool" where
  "instanceof_Uint8Array v = (case v of Uint8Array _ \<Rightarrow> True | _ \<Rightarrow> False)"

text \<open>
  \<^verbatim>\<open>new Uint8Array(x)\<close>: a typed array is copied, an array of numbers is converted
  element by element (modulo \<open>2 ^ 8\<close>), an \<^verbatim>\<open>ArrayBuffer\<close> is viewed.
\<close>

definition new_Uint8Array :: "js_bytes \<Rightarrow> js_bytes" where
  "new_Uint8Array v =
     (case v of
        Uint8Array bs \<Rightarrow> Uint8Array bs
      | NumberArray ns \<Rightarrow> Uint8Array (map word_of_int ns)
      | ArrayBuffer bs \<Rightarrow> Uint8Array bs)"

section \<open>The declared types (\<^verbatim>\<open>js/types.ts\<close>)\<close>

datatype action = Reject | Annotate

record FluxgatePolicy =
  id_policy :: string
  match_policy :: string
  limitPerSecond :: rat
  burst :: rat
  windowSeconds :: rat
  action :: "action option"

record FluxgateInit =
  policies :: "FluxgatePolicy list option"
  configText :: "string option"
  keySecret :: "string option"
  slices :: "rat option"
  sketchWidth :: "rat option"
  sketchDepth :: "rat option"
  topK :: "rat option"
  shardAHotCapacity :: "rat option"
  admissionHitsToPromote :: "rat option"

datatype attr_value = AStr string | ANum rat | ABool bool | ANull

record CheckRequest =
  ip :: "string option"
  route :: "string option"
  headers :: "(string \<times> string option) list option"
  attrs :: "(string \<times> attr_value option) list option"

text \<open>
  \<^verbatim>\<open>JSON.stringify\<close> of these objects: a property whose value is \<^verbatim>\<open>undefined\<close>
  (here \<open>None\<close>) is left out.
\<close>

definition opt_field :: "string \<Rightarrow> ('a \<Rightarrow> json) \<Rightarrow> 'a option \<Rightarrow> (string \<times> json) list" where
  "opt_field k f v = (case v of None \<Rightarrow> [] | Some x \<Rightarrow> [(k, f x)])"

definition json_of_action :: "action \<Rightarrow> json" where
  "json_of_action a = (case a of Reject \<Rightarrow> JStr ''reject'' | Annotate \<Rightarrow> JStr ''annotate'')"

definition json_of_FluxgatePolicy :: "FluxgatePolicy \<Rightarrow> json" where
  "json_of_FluxgatePolicy p =
     JObj ([(''id'', JStr (id_policy p)),
            (''match'', JStr (match_policy p)),
            (''limitPerSecond'', JNum (limitPerSecond p)),
            (''burst'', JNum (burst p)),
            (''windowSeconds'', JNum (windowSeconds p))]
           @ opt_field ''action'' json_of_action (action p))"

definition json_of_FluxgateInit :: "FluxgateInit \<Rightarrow> json" where
  "json_of_FluxgateInit c =
     JObj (opt_field ''policies'' (\<lambda>ps. JArr (map json_of_FluxgatePolicy ps)) (policies c)
           @ opt_field ''configText'' JStr (configText c)
           @ opt_field ''keySecret'' JStr (keySecret c)
           @ opt_field ''slices'' JNum (slices c)
           @ opt_field ''sketchWidth'' JNum (sketchWidth c)
           @ opt_field ''sketchDepth'' JNum (sketchDepth c)
           @ opt_field ''topK'' JNum (topK c)
           @ opt_field ''shardAHotCapacity'' JNum (shardAHotCapacity c)
           @ opt_field ''admissionHitsToPromote'' JNum (admissionHitsToPromote c))"

definition json_of_attr_value :: "attr_value \<Rightarrow> json" where
  "json_of_attr_value v =
     (case v of AStr s \<Rightarrow> JStr s | ANum n \<Rightarrow> JNum n | ABool b \<Rightarrow> JBool b | ANull \<Rightarrow> JNull)"

definition json_of_record :: "('a \<Rightarrow> json) \<Rightarrow> (string \<times> 'a option) list \<Rightarrow> json" where
  "json_of_record f kvs = JObj (concat (map (\<lambda>(k, v). opt_field k f v) kvs))"

definition json_of_CheckRequest :: "CheckRequest \<Rightarrow> json" where
  "json_of_CheckRequest r =
     JObj (opt_field ''ip'' JStr (ip r)
           @ opt_field ''route'' JStr (route r)
           @ opt_field ''headers'' (json_of_record JStr) (headers r)
           @ opt_field ''attrs'' (json_of_record json_of_attr_value) (attrs r))"

section \<open>The raw binding and the module state\<close>

text \<open>
  The class \<^verbatim>\<open>WasmFluxgate\<close> is generated by \<^verbatim>\<open>wasm-pack\<close> into \<^verbatim>\<open>pkg/\<close>, which is
  not among the sources: it is a parameter of the wrapper, a record of its methods over the
  state \<open>'s\<close> of one engine instance. The signatures follow the calls made in
  \<^verbatim>\<open>js/index.ts\<close>; the constructor, \<^verbatim>\<open>reload\<close> and \<^verbatim>\<open>restore\<close> may throw (the design
  lists a configuration error for the first two and format and corruption errors for the
  last), the other methods return.
\<close>

record 's WasmFluxgate =
  wasm_new :: "json_text \<Rightarrow> js_error + 's"
  wasm_check :: "json_text \<Rightarrow> 's \<Rightarrow> json_text \<times> 's"
  wasm_check_batch :: "json_text \<Rightarrow> 's \<Rightarrow> json_text \<times> 's"
  wasm_rotate :: "'s \<Rightarrow> 's"
  wasm_reload :: "json_text \<Rightarrow> 's \<Rightarrow> (js_error + unit) \<times> 's"
  wasm_snapshot :: "'s \<Rightarrow> js_bytes"
  wasm_restore :: "byte list \<Rightarrow> 's \<Rightarrow> (js_error + unit) \<times> 's"
  wasm_metrics :: "'s \<Rightarrow> json_text"
  wasm_version :: "'s \<Rightarrow> string"

text \<open>
  The imported module: how the promise of \<^verbatim>\<open>initWasm()\<close> settles, and the export
  \<^verbatim>\<open>(wasm as any).WasmFluxgate\<close> (\<open>None\<close> when the module has no such export).
\<close>

record 's wasm_module =
  initWasm :: "js_error + unit"
  export_WasmFluxgate :: "'s WasmFluxgate option"

text \<open>
  The state of the module \<^verbatim>\<open>js/index.ts\<close>: the variable \<^verbatim>\<open>wasmReady\<close> (\<open>None\<close> is
  \<^verbatim>\<open>null\<close>, otherwise the settled promise), and the arguments of every
  \<^verbatim>\<open>new ctor(...)\<close> evaluated so far.
\<close>

record module_state =
  wasmReady :: "(js_error + unit) option"
  constructed :: "json_text list"

definition ensureWasmLoaded :: "'s wasm_module \<Rightarrow> module_state \<Rightarrow> (js_error + unit) \<times> module_state" where
  "ensureWasmLoaded M st =
     (let st' = (if wasmReady st = None then st\<lparr>wasmReady := Some (initWasm M)\<rparr> else st)
      in (case wasmReady st' of None \<Rightarrow> (Inr (), st') | Some r \<Rightarrow> (r, st')))"

definition parseResult :: "json_text \<Rightarrow> js_error + json" where
  "parseResult result = JSON_parse result"

section \<open>The wrapper (\<^verbatim>\<open>js/index.ts\<close>)\<close>

text \<open>
  The interface \<^verbatim>\<open>Fluxgate\<close>. A method takes the state of the engine instance the object
  was created around and returns the new one where the binding can change it.
\<close>

record 's Fluxgate =
  check :: "CheckRequest \<Rightarrow> 's \<Rightarrow> (js_error + json) \<times> 's"
  checkBatch :: "CheckRequest list \<Rightarrow> 's \<Rightarrow> (js_error + json) \<times> 's"
  rotate_gate :: "'s \<Rightarrow> 's"
  reload :: "FluxgateInit \<Rightarrow> 's \<Rightarrow> (js_error + unit) \<times> 's"
  snapshot :: "'s \<Rightarrow> js_bytes"
  restore :: "byte list \<Rightarrow> 's \<Rightarrow> (js_error + unit) \<times> 's"
  metrics :: "'s \<Rightarrow> js_error + json"
  version :: "'s \<Rightarrow> string"

text \<open>The object literal that \<^verbatim>\<open>createFluxgate\<close> returns, around the binding \<open>W\<close>.\<close>

definition Fluxgate_object :: "'s WasmFluxgate \<Rightarrow> 's Fluxgate" where
  "Fluxgate_object W =
     \<lparr> check = (\<lambda>req s.
         let (response, s') = wasm_check W (JSON_stringify (json_of_CheckRequest req)) s
         in (parseResult response, s')),
       checkBatch = (\<lambda>reqs s.
         let (response, s') =
               wasm_check_batch W (JSON_stringify (JArr (map json_of_CheckRequest reqs))) s
         in (JSON_parse response, s')),
       rotate_gate = (\<lambda>s. wasm_rotate W s),
       reload = (\<lambda>cfg s. wasm_reload W (JSON_stringify (json_of_FluxgateInit cfg)) s),
       snapshot = (\<lambda>s.
         let bytes = wasm_snapshot W s
         in if instanceof_Uint8Array bytes then bytes else new_Uint8Array bytes),
       restore = (\<lambda>bytes s. wasm_restore W bytes s),
       metrics = (\<lambda>s. let response = wasm_metrics W s in JSON_parse response),
       version = (\<lambda>s. wasm_version W s) \<rparr>"

definition ctor_missing :: string where
  "ctor_missing = ''WasmFluxgate constructor is not available. Did you run `wasm-pack build`?''"

definition createFluxgate ::
  "'s wasm_module \<Rightarrow> FluxgateInit \<Rightarrow> module_state \<Rightarrow> (js_error + 's Fluxgate \<times> 's) \<times> module_state" where
  "createFluxgate M init st =
     (case ensureWasmLoaded M st of
        (Inl e, st1) \<Rightarrow> (Inl e, st1)
      | (Inr _, st1) \<Rightarrow>
          (case export_WasmFluxgate M of
             None \<Rightarrow> (Inl (Error ctor_missing), st1)
           | Some ctor \<Rightarrow>
               (let arg = JSON_stringify (json_of_FluxgateInit init);
                    st2 = st1\<lparr>constructed := constructed st1 @ [arg]\<rparr>
                in (case wasm_new ctor arg of
                      Inl e \<Rightarrow> (Inl e, st2)
                    | Inr inst \<Rightarrow> (Inr (Fluxgate_object ctor, inst), st2)))))"

section \<open>Checking a request against the policy set\<close>

text \<open>
  The engine itself (the Rust crate under \<^verbatim>\<open>core/\<close>) is not among the sources. What
  follows in this section is written from the design document, sentence by sentence, over
  the policy type the wrapper declares.
\<close>

text \<open>
  Modelled from the spec: the decision of one matched policy (section 4.2; the engine's code
  is missing): ``allow'', or ``deny; \<open>retryAfter = allowAt - now\<close>''. A denial carries its
  time to wait, here in milliseconds.
\<close>

datatype verdict = Allowed | Denied rat

text \<open>
  Modelled from the spec: the result of the engine's check (section 6; the engine's code is
  missing), \<^verbatim>\<open>{allowed, retryAfterMs?, perPolicyDecisions}\<close>: the overall outcome and the
  decision of every matched policy under the policy's id, in the order of evaluation.
\<close>

record check_outcome =
  allowed :: bool
  retryAfterMs :: "rat option"
  perPolicyDecisions :: "(string \<times> verdict) list"

text \<open>
  Modelled from the spec: what the design leaves open about the engine (whose code is
  missing) is a parameter: when a match expression is satisfied by a request and whether it is
  an exact attribute match or a wildcard match (section 4.1), and the evaluation of one
  matched policy at time \<open>now\<close> on the tiered per-key store \<open>'st\<close> (key derivation, shard
  routing, hot and cold tier and the rate algorithm, sections 4.2 to 4.5).
\<close>

record 'st tiers =
  satisfied :: "string \<Rightarrow> CheckRequest \<Rightarrow> bool"
  exact :: "string \<Rightarrow> bool"
  evaluate :: "FluxgatePolicy \<Rightarrow> CheckRequest \<Rightarrow> rat \<Rightarrow> 'st \<Rightarrow> verdict \<times> 'st"

text \<open>
  Modelled from the spec: the engine owns the policy set and the per-key state
  (section 3; the engine's code is missing).
\<close>

record 'st engine =
  policySet :: "FluxgatePolicy list"
  store :: "'st"

text \<open>
  Modelled from the spec: the policy matcher (section 4.1; the engine's code is missing).
  ``Returns the ordered list of policies whose match expression is satisfied, most-specific
  first (exact attribute match outranks wildcard match; ties broken by declaration order).''
\<close>

definition matchedPolicies :: "'st tiers \<Rightarrow> FluxgatePolicy list \<Rightarrow> CheckRequest \<Rightarrow> FluxgatePolicy list" where
  "matchedPolicies E ps req =
     filter (\<lambda>p. exact E (match_policy p) \<and> satisfied E (match_policy p) req) ps
     @ filter (\<lambda>p. \<not> exact E (match_policy p) \<and> satisfied E (match_policy p) req) ps"

text \<open>
  Modelled from the spec: the matched policies are evaluated one after the other, each on
  the store the previous one left (section 4.2: ``evaluated independently per matched
  policy''; the engine's code is missing).
\<close>

fun evaluateAll ::
  "'st tiers \<Rightarrow> CheckRequest \<Rightarrow> rat \<Rightarrow> FluxgatePolicy list \<Rightarrow> 'st \<Rightarrow> (FluxgatePolicy \<times> verdict) list \<times> 'st" where
  "evaluateAll E req now [] st = ([], st)"
| "evaluateAll E req now (p # ps) st =
     (let (d, st1) = evaluate E p req now st;
          (ds, st2) = evaluateAll E req now ps st1
      in ((p, d) # ds, st2))"

text \<open>
  Modelled from the spec: which policies can block (section 4.2; the engine's code is
  missing). ``A policy may be marked annotate-only: it contributes its decision to the result
  but never blocks the overall outcome.''
\<close>

definition blocks :: "FluxgatePolicy \<Rightarrow> bool" where
  "blocks p = (action p \<noteq> Some Annotate)"

text \<open>
  Modelled from the spec: the aggregation into one outcome (section 4.2; the engine's code
  is missing). ``A request is allowed overall only if all matched policies allow it
  (conjunction). If any policy denies, the combined retryAfter is the maximum across denying
  policies.'' The outcome starts as allowed and is updated policy by policy: every decision
  is recorded, every denial enters the maximum, and a denial of a policy that can block makes
  the outcome denied.
\<close>

definition aggregate :: "check_outcome \<Rightarrow> FluxgatePolicy \<times> verdict \<Rightarrow> check_outcome" where
  "aggregate acc pd =
     (let (p, d) = pd;
          acc1 = acc\<lparr>perPolicyDecisions := perPolicyDecisions acc @ [(id_policy p, d)]\<rparr>
      in case d of
           Allowed \<Rightarrow> acc1
         | Denied ms \<Rightarrow>
             acc1\<lparr>allowed := (allowed acc \<and> \<not> blocks p),
                  retryAfterMs :=
                    (case retryAfterMs acc of
                       None \<Rightarrow> Some ms
                     | Some m \<Rightarrow> Some (max m ms))\<rparr>)"

definition combine :: "(FluxgatePolicy \<times> verdict) list \<Rightarrow> check_outcome" where
  "combine ds = foldl aggregate \<lparr>allowed = True, retryAfterMs = None, perPolicyDecisions = []\<rparr> ds"

text \<open>
  Modelled from the spec: \<^verbatim>\<open>check(request) -> {allowed, retryAfterMs?, perPolicyDecisions}\<close>
  (sections 2 and 6; the engine's code is missing): resolve the applicable policies, evaluate
  each, aggregate.
\<close>

definition engine_check :: "'st tiers \<Rightarrow> rat \<Rightarrow> CheckRequest \<Rightarrow> 'st engine \<Rightarrow> check_outcome \<times> 'st engine" where
  "engine_check E now req e =
     (let (ds, st) = evaluateAll E req now (matchedPolicies E (policySet e) req) (store e)
      in (combine ds, e\<lparr>store := st\<rparr>))"


text \<open>The times to wait of the denials among the decisions, in order.\<close>

fun deniedTimes :: "(FluxgatePolicy \<times> verdict) list \<Rightarrow> rat list" where
  "deniedTimes [] = []"
| "deniedTimes ((p, Allowed) # ds) = deniedTimes ds"
| "deniedTimes ((p, Denied ms) # ds) = ms # deniedTimes ds"

section \<open>Example values\<close>

text \<open>
  A binding over a trivial state: its constructor rejects a configuration with
  \<^verbatim>\<open>slices: 0\<close>, its \<^verbatim>\<open>check\<close> answers with an allowed result and an empty
  \<^verbatim>\<open>decisions\<close> record, its \<^verbatim>\<open>snapshot\<close> returns a plain array of numbers.
\<close>

definition example_binding :: "unit WasmFluxgate" where
  "example_binding =
     \<lparr> wasm_new = (\<lambda>cfg. case cfg of
           Text j \<Rightarrow> (if property j ''slices'' = Some (JNum 0)
                      then Inl (WasmError ''ConfigError'') else Inr ())
         | Malformed s \<Rightarrow> Inl (WasmError ''ConfigError'')),
       wasm_check = (\<lambda>req s. (Text (JObj [(''allowed'', JBool True), (''decisions'', JObj [])]), s)),
       wasm_check_batch = (\<lambda>reqs s. (Text (JArr []), s)),
       wasm_rotate = (\<lambda>s. s),
       wasm_reload = (\<lambda>cfg s. (Inr (), s)),
       wasm_snapshot = (\<lambda>s. NumberArray [1, 256, - 1]),
       wasm_restore = (\<lambda>bytes s. (Inr (), s)),
       wasm_metrics = (\<lambda>s. Text (JObj [])),
       wasm_version = (\<lambda>s. ''0.1.0'') \<rparr>"

definition example_module :: "unit wasm_module" where
  "example_module = \<lparr> initWasm = Inr (), export_WasmFluxgate = Some example_binding \<rparr>"

definition empty_module :: "unit wasm_module" where
  "empty_module = \<lparr> initWasm = Inr (), export_WasmFluxgate = None \<rparr>"

definition fresh_state :: module_state where
  "fresh_state = \<lparr> wasmReady = None, constructed = [] \<rparr>"

definition no_init :: FluxgateInit where
  "no_init = \<lparr> policies = None, configText = None, keySecret = None, slices = None,
       sketchWidth = None, sketchDepth = None, topK = None, shardAHotCapacity = None,
       admissionHitsToPromote = None \<rparr>"

definition any_request :: CheckRequest where
  "any_request = \<lparr> ip = Some ''203.0.113.8'', route = None, headers = None, attrs = None \<rparr>"

text \<open>The policy of the design's concrete scenario, and a second one that only annotates.\<close>

definition scenario_policy :: FluxgatePolicy where
  "scenario_policy =
     \<lparr> id_policy = ''ip-global'', match_policy = ''ip:*'', limitPerSecond = 100, burst = 50,
       windowSeconds = 60, action = None \<rparr>"

definition annotate_policy :: FluxgatePolicy where
  "annotate_policy =
     \<lparr> id_policy = ''ip-watch'', match_policy = ''ip:*'', limitPerSecond = 1, burst = 1,
       windowSeconds = 60, action = Some Annotate \<rparr>"

text \<open>
  Example tiers, to run the engine on: a policy written \<^verbatim>\<open>ip:*\<close> is satisfied by a request
  with an address, and admits one request per interval \<open>1 / limitPerSecond\<close>. The store
  holds, per policy id, the time until which the policy denies.
\<close>

definition interval_tiers :: "(string \<times> rat) list tiers" where
  "interval_tiers =
     \<lparr> satisfied = (\<lambda>m req. m = ''ip:*'' \<and> ip req \<noteq> None),
       exact = (\<lambda>m. False),
       evaluate = (\<lambda>p req now st.
         case map_of st (id_policy p) of
           None \<Rightarrow> (Allowed, (id_policy p, now + 1 / limitPerSecond p) # st)
         | Some until \<Rightarrow>
             if now < until then (Denied ((until - now) * 1000), st)
             else (Allowed, (id_policy p, now + 1 / limitPerSecond p) # st)) \<rparr>"

text \<open>
  The design's scenario of two policies matching one request. In \<open>scenario_engine\<close> both
  policies deny a request at time \<open>0\<close>, the annotate-only one with the longer wait; in
  \<open>idle_engine\<close> no request has been seen.
\<close>

definition scenario_engine :: "(string \<times> rat) list engine" where
  "scenario_engine =
     \<lparr> policySet = [scenario_policy, annotate_policy],
       store = [(''ip-global'', 1 / 100), (''ip-watch'', 1)] \<rparr>"


text \<open>A configuration with \<^verbatim>\<open>slices: 0\<close>, which the example binding rejects.\<close>

definition zero_slices :: FluxgateInit where
  "zero_slices = no_init\<lparr>slices := Some 0\<rparr>"

section \<open>Properties of the wrapper\<close>

lemma ensureWasmLoaded_constructed:
  "constructed (snd (ensureWasmLoaded M st)) = constructed st"
  by (simp add: ensureWasmLoaded_def Let_def split: option.splits)

lemma new_Uint8Array_instance: "instanceof_Uint8Array (new_Uint8Array v)"
  by (cases v) (simp_all add: new_Uint8Array_def instanceof_Uint8Array_def)

lemma example_module_creates:
  "fst (createFluxgate example_module no_init fresh_state) = Inr (Fluxgate_object example_binding, ())"
  by (simp add: createFluxgate_def ensureWasmLoaded_def example_module_def fresh_state_def
      example_binding_def JSON_stringify_def json_of_FluxgateInit_def no_init_def opt_field_def
      property_def Let_def)

text \<open>
  Claim C9, as the code has it. Once the module is loaded: without an export
  \<^verbatim>\<open>WasmFluxgate\<close>, \<^verbatim>\<open>createFluxgate\<close> rejects with the error whose message names the
  constructor and no constructor is called. With the export, the constructor is called once,
  with the JSON text of the configuration; when it returns an instance the result is the
  object with the eight methods around that instance, and when it throws the result is its
  exception.
\<close>

theorem createFluxgate_guard:
  assumes "fst (ensureWasmLoaded M st) = Inr ()"
  shows "(export_WasmFluxgate M = None \<longrightarrow>
            fst (createFluxgate M init st) = Inl (Error ctor_missing)
            \<and> constructed (snd (createFluxgate M init st)) = constructed st)
         \<and> (\<forall>W. export_WasmFluxgate M = Some W \<longrightarrow>
              constructed (snd (createFluxgate M init st))
                = constructed st @ [JSON_stringify (json_of_FluxgateInit init)]
              \<and> (case wasm_new W (JSON_stringify (json_of_FluxgateInit init)) of
                    Inl e \<Rightarrow> fst (createFluxgate M init st) = Inl e
                  | Inr inst \<Rightarrow> fst (createFluxgate M init st) = Inr (Fluxgate_object W, inst)))"
proof -
  obtain r st1 where e: "ensureWasmLoaded M st = (r, st1)"
    by (cases "ensureWasmLoaded M st")
  with assms have r: "r = Inr ()" by simp
  from e have c: "constructed st1 = constructed st"
    using ensureWasmLoaded_constructed [of M st] by simp
  show ?thesis
    using e r c by (simp add: createFluxgate_def Let_def split: sum.splits)
qed

theorem createFluxgate_guard_witness:
  "fst (ensureWasmLoaded empty_module fresh_state) = Inr ()
   \<and> fst (createFluxgate empty_module no_init fresh_state)
       = Inl (Error ''WasmFluxgate constructor is not available. Did you run `wasm-pack build`?'')
   \<and> constructed (snd (createFluxgate empty_module no_init fresh_state)) = []
   \<and> fst (createFluxgate example_module no_init fresh_state) = Inr (Fluxgate_object example_binding, ())
   \<and> constructed (snd (createFluxgate example_module no_init fresh_state)) = [Text (JObj [])]"
proof -
  have l0: "fst (ensureWasmLoaded empty_module fresh_state) = Inr ()"
    by (simp add: ensureWasmLoaded_def empty_module_def fresh_state_def)
  have l1: "fst (ensureWasmLoaded example_module fresh_state) = Inr ()"
    by (simp add: ensureWasmLoaded_def example_module_def fresh_state_def)
  have e0: "export_WasmFluxgate empty_module = None"
    by (simp add: empty_module_def)
  have e1: "export_WasmFluxgate example_module = Some example_binding"
    by (simp add: example_module_def)
  have j: "JSON_stringify (json_of_FluxgateInit no_init) = Text (JObj [])"
    by (simp add: JSON_stringify_def json_of_FluxgateInit_def no_init_def opt_field_def)
  have n: "wasm_new example_binding (Text (JObj [])) = Inr ()"
    by (simp add: example_binding_def property_def)
  from createFluxgate_guard [OF l0, of no_init] e0
  have a: "fst (createFluxgate empty_module no_init fresh_state) = Inl (Error ctor_missing)
           \<and> constructed (snd (createFluxgate empty_module no_init fresh_state)) = []"
    by (simp add: fresh_state_def)
  from createFluxgate_guard [OF l1, of no_init] e1 j n
  have b: "fst (createFluxgate example_module no_init fresh_state) = Inr (Fluxgate_object example_binding, ())
           \<and> constructed (snd (createFluxgate example_module no_init fresh_state)) = [Text (JObj [])]"
    by (simp add: fresh_state_def)
  from l0 a b show ?thesis by (simp add: ctor_missing_def)
qed

text \<open>
  The module is loaded and exports the constructor, and still \<^verbatim>\<open>createFluxgate\<close> returns
  no object: the constructor rejects the configuration and its exception is the result.
\<close>

theorem createFluxgate_counterexample:
  "fst (ensureWasmLoaded example_module fresh_state) = Inr ()
   \<and> export_WasmFluxgate example_module = Some example_binding
   \<and> fst (createFluxgate example_module zero_slices fresh_state) = Inl (WasmError ''ConfigError'')"
  by (simp add: createFluxgate_def ensureWasmLoaded_def example_module_def fresh_state_def
      example_binding_def JSON_stringify_def json_of_FluxgateInit_def no_init_def zero_slices_def
      opt_field_def property_def Let_def)

text \<open>
  Claim C10. For every object that \<^verbatim>\<open>createFluxgate\<close> returns and every state of its
  engine instance, \<^verbatim>\<open>snapshot()\<close> returns a \<^verbatim>\<open>Uint8Array\<close>: the value of the binding
  itself when that is one, and otherwise that value converted by \<^verbatim>\<open>new Uint8Array\<close>.
\<close>

theorem snapshot_is_Uint8Array:
  assumes "fst (createFluxgate M init st) = Inr (g, inst)"
  shows "\<exists>W. export_WasmFluxgate M = Some W \<and>
           (\<forall>s. instanceof_Uint8Array (snapshot g s) \<and>
                (if instanceof_Uint8Array (wasm_snapshot W s)
                 then snapshot g s = wasm_snapshot W s
                 else snapshot g s = new_Uint8Array (wasm_snapshot W s)))"
proof -
  from assms obtain W where W: "export_WasmFluxgate M = Some W" and g: "g = Fluxgate_object W"
    by (auto simp: createFluxgate_def Let_def split: prod.splits sum.splits option.splits)
  have "\<forall>s. instanceof_Uint8Array (snapshot g s) \<and>
                (if instanceof_Uint8Array (wasm_snapshot W s)
                 then snapshot g s = wasm_snapshot W s
                 else snapshot g s = new_Uint8Array (wasm_snapshot W s))"
    by (simp add: g Fluxgate_object_def Let_def new_Uint8Array_instance)
  with W show ?thesis by blast
qed

theorem snapshot_is_Uint8Array_witness:
  "fst (createFluxgate example_module no_init fresh_state) = Inr (Fluxgate_object example_binding, ())
   \<and> instanceof_Uint8Array (snapshot (Fluxgate_object example_binding) ())
   \<and> snapshot (Fluxgate_object example_binding) () = Uint8Array [1, 0, 255]"
proof -
  note c = example_module_creates
  have v: "snapshot (Fluxgate_object example_binding) () = Uint8Array [1, 0, 255]"
    by (simp add: Fluxgate_object_def example_binding_def instanceof_Uint8Array_def
        new_Uint8Array_def)
  from snapshot_is_Uint8Array [OF c]
  have "instanceof_Uint8Array (snapshot (Fluxgate_object example_binding) ())"
    by blast
  with c v show ?thesis by simp
qed

section \<open>Properties of the aggregation\<close>

lemma combine_snoc: "combine (ds @ [pd]) = aggregate (combine ds) pd"
  by (simp add: combine_def)

lemma deniedTimes_snoc:
  "deniedTimes (ds @ [(p, d)]) =
     (case d of Allowed \<Rightarrow> deniedTimes ds | Denied ms \<Rightarrow> deniedTimes ds @ [ms])"
  by (induction ds rule: deniedTimes.induct) (simp_all split: verdict.splits)

lemma deniedTimes_set: "set (deniedTimes ds) = {ms. \<exists>p. (p, Denied ms) \<in> set ds}"
  by (induction ds rule: deniedTimes.induct) auto

lemma combine_allowed:
  "allowed (combine ds) \<longleftrightarrow> (\<forall>(p, d) \<in> set ds. blocks p \<longrightarrow> d = Allowed)"
proof (induction ds rule: rev_induct)
  case Nil
  show ?case by (simp add: combine_def)
next
  case (snoc pd ds)
  obtain p d where pd: "pd = (p, d)" by (cases pd)
  show ?case using snoc
    by (cases d) (auto simp: pd combine_snoc aggregate_def Let_def)
qed

lemma combine_retryAfterMs:
  "retryAfterMs (combine ds) =
     (if deniedTimes ds = [] then None else Some (Max (set (deniedTimes ds))))"
proof (induction ds rule: rev_induct)
  case Nil
  show ?case by (simp add: combine_def)
next
  case (snoc pd ds)
  obtain p d where pd: "pd = (p, d)" by (cases pd)
  show ?case
  proof (cases d)
    case Allowed
    then show ?thesis using snoc
      by (simp add: pd combine_snoc deniedTimes_snoc aggregate_def Let_def)
  next
    case (Denied ms)
    show ?thesis
    proof (cases "deniedTimes ds = []")
      case True
      with Denied snoc show ?thesis
        by (simp add: pd combine_snoc deniedTimes_snoc aggregate_def Let_def)
    next
      case False
      then have "Max (insert ms (set (deniedTimes ds))) = max ms (Max (set (deniedTimes ds)))"
        by (intro Max_insert) simp_all
      with False Denied snoc show ?thesis
        by (simp add: pd combine_snoc deniedTimes_snoc aggregate_def Let_def max.commute)
    qed
  qed
qed

lemma combine_perPolicyDecisions:
  "perPolicyDecisions (combine ds) = map (\<lambda>(p, d). (id_policy p, d)) ds"
proof (induction ds rule: rev_induct)
  case Nil
  show ?case by (simp add: combine_def)
next
  case (snoc pd ds)
  obtain p d where pd: "pd = (p, d)" by (cases pd)
  show ?case using snoc
    by (cases d) (simp_all add: pd combine_snoc aggregate_def Let_def)
qed

lemma evaluateAll_policies:
  "evaluateAll E req now ps st = (ds, st') \<Longrightarrow> map fst ds = ps"
  by (induction ps arbitrary: st ds) (auto simp: Let_def split: prod.splits)

lemma scenario_evaluateAll:
  "evaluateAll interval_tiers any_request 0
     (matchedPolicies interval_tiers (policySet scenario_engine) any_request) (store scenario_engine)
   = ([(scenario_policy, Denied 10), (annotate_policy, Denied 1000)],
      [(''ip-global'', 1 / 100), (''ip-watch'', 1)])"
  by (simp add: matchedPolicies_def interval_tiers_def scenario_engine_def scenario_policy_def
      annotate_policy_def any_request_def Let_def)

text \<open>
  Claim C2. Let \<open>ds\<close> be the matched policies of a request, each with its decision, and
  \<open>r\<close> the outcome of the check. Then \<open>r\<close> is allowed exactly when every matched policy
  that is not annotate-only allows; when one of these denies, \<open>retryAfterMs\<close> of \<open>r\<close> is
  the maximum time to wait across the policies that deny, annotate-only or not; every
  matched policy has its decision in \<open>perPolicyDecisions\<close>; and whether \<open>r\<close> is allowed is
  what the aggregation gives without the annotate-only policies.
\<close>

theorem engine_check_conjunction:
  assumes "evaluateAll E req now (matchedPolicies E (policySet e) req) (store e) = (ds, st)"
    and "r = fst (engine_check E now req e)"
  shows "map fst ds = matchedPolicies E (policySet e) req
     \<and> (allowed r \<longleftrightarrow> (\<forall>(p, d) \<in> set ds. blocks p \<longrightarrow> d = Allowed))
     \<and> ((\<exists>(p, d) \<in> set ds. blocks p \<and> d \<noteq> Allowed) \<longrightarrow>
          retryAfterMs r = Some (Max {ms. \<exists>p. (p, Denied ms) \<in> set ds}))
     \<and> perPolicyDecisions r = map (\<lambda>(p, d). (id_policy p, d)) ds
     \<and> allowed r = allowed (combine (filter (\<lambda>(p, d). blocks p) ds))"
proof -
  have r: "r = combine ds"
    using assms by (simp add: engine_check_def)
  have 1: "map fst ds = matchedPolicies E (policySet e) req"
    using assms(1) by (rule evaluateAll_policies)
  have 2: "allowed r \<longleftrightarrow> (\<forall>(p, d) \<in> set ds. blocks p \<longrightarrow> d = Allowed)"
    by (simp only: r combine_allowed)
  have 3: "(\<exists>(p, d) \<in> set ds. blocks p \<and> d \<noteq> Allowed) \<longrightarrow>
          retryAfterMs r = Some (Max {ms. \<exists>p. (p, Denied ms) \<in> set ds})"
  proof
    assume "\<exists>(p, d) \<in> set ds. blocks p \<and> d \<noteq> Allowed"
    then obtain p ms where "(p, Denied ms) \<in> set ds"
      by (metis (mono_tags, lifting) case_prodE verdict.exhaust)
    then have "ms \<in> set (deniedTimes ds)"
      by (auto simp: deniedTimes_set)
    then have "deniedTimes ds \<noteq> []"
      by auto
    then show "retryAfterMs r = Some (Max {ms. \<exists>p. (p, Denied ms) \<in> set ds})"
      by (simp add: r combine_retryAfterMs deniedTimes_set)
  qed
  have 4: "perPolicyDecisions r = map (\<lambda>(p, d). (id_policy p, d)) ds"
    by (simp only: r combine_perPolicyDecisions)
  have 5: "allowed r = allowed (combine (filter (\<lambda>(p, d). blocks p) ds))"
    by (auto simp: r combine_allowed)
  from 1 2 3 4 5 show ?thesis by blast
qed

text \<open>
  The design's scenario: the policy that rejects denies with 10 ms to wait, the
  annotate-only policy denies with 1000 ms. The request is denied, the time to wait is the
  larger one, 1000 ms, and both decisions are reported.
\<close>

theorem engine_check_conjunction_witness:
  "allowed (fst (engine_check interval_tiers 0 any_request scenario_engine)) = False
   \<and> retryAfterMs (fst (engine_check interval_tiers 0 any_request scenario_engine)) = Some 1000
   \<and> perPolicyDecisions (fst (engine_check interval_tiers 0 any_request scenario_engine))
       = [(''ip-global'', Denied 10), (''ip-watch'', Denied 1000)]"
proof -
  let ?r = "fst (engine_check interval_tiers 0 any_request scenario_engine)"
  let ?ds = "[(scenario_policy, Denied 10), (annotate_policy, Denied 1000)]"
  note t = engine_check_conjunction [OF scenario_evaluateAll refl [of ?r]]
  have b: "blocks scenario_policy" "\<not> blocks annotate_policy"
    by (simp_all add: blocks_def scenario_policy_def annotate_policy_def)
  have "set (deniedTimes ?ds) = {10, 1000}"
    by simp
  then have s: "{ms. \<exists>p. (p, Denied ms) \<in> set ?ds} = {10, 1000}"
    by (simp only: deniedTimes_set)
  have a: "allowed ?r = False"
    using t b by simp
  have m: "retryAfterMs ?r = Some 1000"
    using t b s by simp
  have p: "perPolicyDecisions ?r = [(''ip-global'', Denied 10), (''ip-watch'', Denied 1000)]"
    using t by (simp add: scenario_policy_def annotate_policy_def)
  from a m p show ?thesis by simp
qed

section \<open>Properties of the batch\<close>







end
